theory Spec2Isabelle
  imports Complex_Main
begin

section \<open>Python values used by the integration\<close>

text \<open>
  The exceptions the modelled code can raise. A function that can raise returns a sum,
  \<open>Inl\<close> carrying the exception.
\<close>

datatype py_error =
    AttributeError | IndexError | TypeError | ValueError | OverflowError
  | UnicodeDecodeError | KeyError

text \<open>
  A \<open>bytes\<close> object is a list of 8-bit characters. A Python \<open>str\<close> is modelled by the
  list of bytes of its UTF-8 encoding, so an ASCII literal of the source is the same literal
  here, and equality of strings is equality of these lists.
\<close>

type_synonym bytes = "char list"

definition byte :: "char \<Rightarrow> nat" where
  "byte b = of_char b"

subsection \<open>\<open>bytes.decode(payload, "utf-8")\<close>\<close>

definition continuation :: "char \<Rightarrow> bool" where
  "continuation b = (128 \<le> byte b \<and> byte b \<le> 191)"

text \<open>
  The strict UTF-8 codec: one to four bytes per code point, no overlong form, no surrogate,
  nothing above U+10FFFF, no truncated sequence.
\<close>

fun utf8_valid :: "bytes \<Rightarrow> bool" where
  "utf8_valid [] = True"
| "utf8_valid (b0 # bs) =
     (if byte b0 < 128 then utf8_valid bs
      else if 194 \<le> byte b0 \<and> byte b0 \<le> 223 then
        (case bs of
           b1 # r \<Rightarrow> continuation b1 \<and> utf8_valid r
         | _ \<Rightarrow> False)
      else if 224 \<le> byte b0 \<and> byte b0 \<le> 239 then
        (case bs of
           b1 # b2 # r \<Rightarrow>
             continuation b1 \<and> continuation b2
             \<and> (if byte b0 = 224 then 160 \<le> byte b1 else True)
             \<and> (if byte b0 = 237 then byte b1 \<le> 159 else True)
             \<and> utf8_valid r
         | _ \<Rightarrow> False)
      else if 240 \<le> byte b0 \<and> byte b0 \<le> 244 then
        (case bs of
           b1 # b2 # b3 # r \<Rightarrow>
             continuation b1 \<and> continuation b2 \<and> continuation b3
             \<and> (if byte b0 = 240 then 144 \<le> byte b1 else True)
             \<and> (if byte b0 = 244 then byte b1 \<le> 143 else True)
             \<and> utf8_valid r
         | _ \<Rightarrow> False)
      else False)"

definition bytes_decode :: "bytes \<Rightarrow> py_error + string" where
  "bytes_decode bs = (if utf8_valid bs then Inr bs else Inl UnicodeDecodeError)"

subsection \<open>\<open>str(v)\<close>, \<open>str.lower\<close>, \<open>str.startswith\<close>, \<open>str.split\<close>, \<open>str.join\<close>\<close>

definition str_opt :: "string option \<Rightarrow> string" where
  "str_opt v = (case v of None \<Rightarrow> ''None'' | Some s \<Rightarrow> s)"

definition ascii_upper :: "char \<Rightarrow> bool" where
  "ascii_upper c = (65 \<le> byte c \<and> byte c \<le> 90)"

text \<open>
  \<open>lower\<close> is modelled on the ASCII letters; every other byte is kept. No code point
  outside ASCII has a lower-case form that contains a letter of \<open>valetudo\<close>, so the
  prefix test of \<open>is_rand256_vacuum\<close> is not affected.
\<close>

definition lower_char :: "char \<Rightarrow> char" where
  "lower_char c = (if ascii_upper c then char_of (byte c + 32) else c)"

definition lower :: "string \<Rightarrow> string" where
  "lower s = map lower_char s"

definition startswith :: "string \<Rightarrow> string \<Rightarrow> bool" where
  "startswith s p = (take (length p) s = p)"

fun split :: "string \<Rightarrow> char \<Rightarrow> string list" where
  "split [] sep = [[]]"
| "split (c # cs) sep =
     (if c = sep then [] # split cs sep
      else (case split cs sep of
              p # ps \<Rightarrow> (c # p) # ps
            | [] \<Rightarrow> [[c]]))"

fun join :: "string \<Rightarrow> string list \<Rightarrow> string" where
  "join sep [] = []"
| "join sep [p] = p"
| "join sep (p # q # ps) = p @ sep @ join sep (q # ps)"

subsection \<open>\<open>int(x)\<close>\<close>

text \<open>
  The values a coordinate argument can hold: \<open>None\<close> (the default), an \<open>int\<close>, or a
  \<open>float\<close>. A finite float is a rational number and \<open>int\<close> drops its fractional part;
  \<open>int\<close> of an infinity raises \<open>OverflowError\<close>, of a NaN \<open>ValueError\<close>, of \<open>None\<close>
  \<open>TypeError\<close>.
\<close>

datatype py_num = PyNone | PyInt int | PyFloat rat | PyInf | PyNaN

definition trunc :: "rat \<Rightarrow> int" where
  "trunc q = (if 0 \<le> q then \<lfloor>q\<rfloor> else \<lceil>q\<rceil>)"

fun py_int :: "py_num \<Rightarrow> py_error + int" where
  "py_int PyNone = Inl TypeError"
| "py_int (PyInt i) = Inr i"
| "py_int (PyFloat q) = Inr (trunc q)"
| "py_int PyInf = Inl OverflowError"
| "py_int PyNaN = Inl ValueError"

subsection \<open>Dictionaries built by the code\<close>

datatype json = JInt int | JStr string | JObj "(string \<times> json) list"

section \<open>\<open>mqtt_vacuum_camera/common.py\<close>\<close>

subsection \<open>The host registries\<close>

text \<open>
  What the functions read from \<open>hass\<close>: the device registry (\<open>async_get\<close> is a lookup that
  gives \<open>None\<close> for an unknown id), the values of the entity registry in their order, and
  the MQTT debug information, which maps an entity id to an entry whose
  \<open>"subscriptions"\<close> key, when present, holds a dictionary keyed by topic (its keys in
  order here).
\<close>

record device_entry =
  sw_version :: "string option"

record registry_entry =
  entry_entity_id :: string
  entry_device_id :: "string option"
  entry_domain :: string

record hass =
  dev_reg :: "string \<rightharpoonup> device_entry"
  entity_reg :: "registry_entry list"
  debug_info_entities :: "string \<rightharpoonup> string list option"

subsection \<open>\<open>get_vacuum_mqtt_topic\<close>\<close>

text \<open>
  The two \<open>.get\<close> calls give \<open>None\<close> on a missing key, the next attribute access then
  raises \<open>AttributeError\<close>, which is caught and turned into \<open>None\<close>. Subscript \<open>[0]\<close> of
  an empty key list raises \<open>IndexError\<close>, which is not caught.
\<close>

definition get_vacuum_mqtt_topic :: "string \<Rightarrow> hass \<Rightarrow> py_error + string option" where
  "get_vacuum_mqtt_topic vacuum_entity_id h =
     (case debug_info_entities h vacuum_entity_id of
        None \<Rightarrow> Inr None
      | Some info \<Rightarrow>
          (case info of
             None \<Rightarrow> Inr None
           | Some subscriptions \<Rightarrow>
               (case subscriptions of
                  [] \<Rightarrow> Inl IndexError
                | full_topic # _ \<Rightarrow>
                    (let topic_parts = split full_topic CHR ''/'';
                         base_topic = join ''/'' (butlast topic_parts)
                     in Inr (Some base_topic)))))"

subsection \<open>\<open>is_rand256_vacuum\<close>\<close>

text \<open>Reading \<open>sw_version\<close> of \<open>None\<close> raises \<open>AttributeError\<close>.\<close>

definition is_rand256_vacuum :: "device_entry option \<Rightarrow> py_error + bool" where
  "is_rand256_vacuum vacuum_device =
     (case vacuum_device of
        None \<Rightarrow> Inl AttributeError
      | Some d \<Rightarrow>
          (let sof_version = str_opt (sw_version d)
           in if startswith (lower sof_version) ''valetudo'' then Inr False else Inr True))"

subsection \<open>\<open>from_device_ids_to_entity_ids\<close>\<close>

text \<open>
  The loop over \<open>device_ids\<close> returns inside its first iteration whose device is found;
  with no iteration at all the function falls off its end and returns \<open>None\<close>.
\<close>

definition vacuum_entities_of :: "hass \<Rightarrow> string \<Rightarrow> string list" where
  "vacuum_entities_of h device_id =
     map entry_entity_id
       (filter (\<lambda>entry. entry_device_id entry = Some device_id \<and> entry_domain entry = ''vacuum'')
          (entity_reg h))"

fun from_device_ids_to_entity_ids :: "string list \<Rightarrow> hass \<Rightarrow> py_error + string list option" where
  "from_device_ids_to_entity_ids [] h = Inr None"
| "from_device_ids_to_entity_ids (device_id # device_ids) h =
     (let device = dev_reg h device_id in
      case is_rand256_vacuum device of
        Inl e \<Rightarrow> Inl e
      | Inr test_firmware \<Rightarrow>
          (case device of
             Some _ \<Rightarrow> Inr (Some (vacuum_entities_of h device_id))
           | None \<Rightarrow> from_device_ids_to_entity_ids device_ids h))"

subsection \<open>\<open>get_device_info_from_entity_id\<close>\<close>

definition get_device_info_from_entity_id :: "string \<Rightarrow> hass \<Rightarrow> device_entry option" where
  "get_device_info_from_entity_id entity_id h =
     (case find (\<lambda>entry. entry_entity_id entry = entity_id \<and> entry_domain entry = ''vacuum'')
             (entity_reg h) of
        None \<Rightarrow> None
      | Some entry \<Rightarrow>
          (case entry_device_id entry of
             None \<Rightarrow> None
           | Some device_id \<Rightarrow> dev_reg h device_id))"

subsection \<open>\<open>generate_service_data_go_to\<close>\<close>

text \<open>
  \<open>entity_id\<close> and \<open>device_id\<close> are \<open>None\<close> or a list of identifiers, as a service call
  delivers them: the code subscripts the first with \<open>[0]\<close> and iterates over the second.
\<close>

record service_data =
  sd_entity_id :: "string list option"
  sd_topic :: string
  sd_payload :: json
  sd_firmware :: string

definition subscript0 :: "string list option \<Rightarrow> py_error + string" where
  "subscript0 v =
     (case v of
        None \<Rightarrow> Inl TypeError
      | Some [] \<Rightarrow> Inl IndexError
      | Some (e # _) \<Rightarrow> Inr e)"

definition xy_dict :: "py_num \<Rightarrow> py_num \<Rightarrow> py_error + json" where
  "xy_dict x y =
     (case py_int x of
        Inl e \<Rightarrow> Inl e
      | Inr xi \<Rightarrow>
          (case py_int y of
             Inl e \<Rightarrow> Inl e
           | Inr yi \<Rightarrow> Inr (JObj [(''x'', JInt xi), (''y'', JInt yi)])))"

text \<open>The part of the function after the target is resolved, from \<open>base_topic\<close> on.\<close>

definition service_data_for ::
  "string list option \<Rightarrow> string list option \<Rightarrow> py_num \<Rightarrow> py_num \<Rightarrow> string option \<Rightarrow> hass
    \<Rightarrow> py_error + service_data option" where
  "service_data_for entity_id vacuum_entity_id x y spot_id h =
     (case subscript0 vacuum_entity_id of
        Inl e \<Rightarrow> Inl e
      | Inr first_id \<Rightarrow>
     (case get_vacuum_mqtt_topic first_id h of
        Inl e \<Rightarrow> Inl e
      | Inr base_topic \<Rightarrow>
     (case is_rand256_vacuum (get_device_info_from_entity_id first_id h) of
        Inl e \<Rightarrow> Inl e
      | Inr is_rand256 \<Rightarrow>
     (let topic =
            (if \<not> is_rand256 then str_opt base_topic @ ''/GoToLocationCapability/go/set''
             else str_opt base_topic @ ''/custom_command'')
      in
     (case (if spot_id = None \<or> spot_id = Some []
            then (case xy_dict x y of
                    Inl e \<Rightarrow> Inl e
                  | Inr d \<Rightarrow> Inr (JObj [(''command'', JStr ''go_to''), (''spot_coordinates'', d)]))
            else Inr (JObj [(''command'', JStr ''go_to''), (''spot_id'', JStr (the spot_id))])) of
        Inl e \<Rightarrow> Inl e
      | Inr rand256_payload \<Rightarrow>
     (case (if \<not> is_rand256
            then (case xy_dict x y of
                    Inl e \<Rightarrow> Inl e
                  | Inr d \<Rightarrow> Inr (JObj [(''coordinates'', d)]))
            else Inr rand256_payload) of
        Inl e \<Rightarrow> Inl e
      | Inr payload \<Rightarrow>
          Inr (Some \<lparr>sd_entity_id = entity_id, sd_topic = topic, sd_payload = payload,
                     sd_firmware = (if is_rand256 then ''Rand256'' else ''Valetudo'')\<rparr>)))))))"

definition generate_service_data_go_to ::
  "string list option \<Rightarrow> string list option \<Rightarrow> py_num \<Rightarrow> py_num \<Rightarrow> string option \<Rightarrow> hass
    \<Rightarrow> py_error + service_data option" where
  "generate_service_data_go_to entity_id device_id x y spot_id h =
     (case device_id of
        Some (d # ds) \<Rightarrow>
          (case from_device_ids_to_entity_ids (d # ds) h of
             Inl e \<Rightarrow> Inl e
           | Inr resolved_entities \<Rightarrow> service_data_for entity_id resolved_entities x y spot_id h)
      | _ \<Rightarrow>
          (if entity_id = None \<or> entity_id = Some [] then Inr None
           else service_data_for entity_id entity_id x y spot_id h))"

subsection \<open>\<open>update_options\<close>\<close>

text \<open>
  An options dictionary is a map from key to value. The dictionary comprehension visits
  the keys in order; reading a key that is in neither dictionary raises \<open>KeyError\<close>, which
  the function catches. \<open>KEYS_TO_UPDATE\<close> comes from \<open>const.py\<close> and is a parameter here.
\<close>

fun merge_options ::
  "string list \<Rightarrow> (string \<rightharpoonup> 'v) \<Rightarrow> (string \<rightharpoonup> 'v) \<Rightarrow> (string \<rightharpoonup> 'v)
    \<Rightarrow> py_error + (string \<rightharpoonup> 'v)" where
  "merge_options [] bk_options new_options updated_options = Inr updated_options"
| "merge_options (key # keys) bk_options new_options updated_options =
     (case new_options key of
        Some v \<Rightarrow> merge_options keys bk_options new_options (updated_options(key \<mapsto> v))
      | None \<Rightarrow>
          (case bk_options key of
             Some v \<Rightarrow> merge_options keys bk_options new_options (updated_options(key \<mapsto> v))
           | None \<Rightarrow> Inl KeyError))"

definition update_options ::
  "string list \<Rightarrow> (string \<rightharpoonup> 'v) \<Rightarrow> (string \<rightharpoonup> 'v) \<Rightarrow> (string \<rightharpoonup> 'v)" where
  "update_options keys_to_update bk_options new_options =
     (case merge_options keys_to_update bk_options new_options Map.empty of
        Inl e \<Rightarrow> bk_options
      | Inr updated_options \<Rightarrow> updated_options)"

section \<open>\<open>valetudo_vacuum_camera/common.py\<close>\<close>

text \<open>The older \<open>update_options\<close> carries its key list and fills the dictionary in a loop.\<close>

definition keys_to_update :: "string list" where
  "keys_to_update =
     [''rotate_image'', ''margins'', ''aspect_ratio'', ''offset_top'', ''offset_bottom'',
      ''offset_left'', ''offset_right'', ''auto_zoom'', ''zoom_lock_ratio'',
      ''show_vac_status'', ''vac_status_size'', ''vac_status_position'', ''vac_status_font'',
      ''get_svg_file'', ''enable_www_snapshots'', ''color_charger'', ''color_move'',
      ''color_wall'', ''color_robot'', ''color_go_to'', ''color_no_go'', ''color_zone_clean'',
      ''color_background'', ''color_text'', ''alpha_charger'', ''alpha_move'', ''alpha_wall'',
      ''alpha_robot'', ''alpha_go_to'', ''alpha_no_go'', ''alpha_zone_clean'',
      ''alpha_background'', ''alpha_text'', ''color_room_0'', ''color_room_1'',
      ''color_room_2'', ''color_room_3'', ''color_room_4'', ''color_room_5'', ''color_room_6'',
      ''color_room_7'', ''color_room_8'', ''color_room_9'', ''color_room_10'',
      ''color_room_11'', ''color_room_12'', ''color_room_13'', ''color_room_14'',
      ''color_room_15'', ''alpha_room_0'', ''alpha_room_1'', ''alpha_room_2'', ''alpha_room_3'',
      ''alpha_room_4'', ''alpha_room_5'', ''alpha_room_6'', ''alpha_room_7'', ''alpha_room_8'',
      ''alpha_room_9'', ''alpha_room_10'', ''alpha_room_11'', ''alpha_room_12'',
      ''alpha_room_13'', ''alpha_room_14'', ''alpha_room_15'']"

definition update_options_valetudo ::
  "(string \<rightharpoonup> 'v) \<Rightarrow> (string \<rightharpoonup> 'v) \<Rightarrow> (string \<rightharpoonup> 'v)" where
  "update_options_valetudo bk_options new_options =
     (case merge_options keys_to_update bk_options new_options Map.empty of
        Inl e \<Rightarrow> bk_options
      | Inr updated_options \<Rightarrow> updated_options)"

section \<open>\<open>valetudo_vacuum_camera/valetudo/connector.py\<close>\<close>

text \<open>
  The fields of \<open>ValetudoConnector\<close> that the message callback and the accessors use;
  \<open>raw_payload\<close> is the field \<open>_payload\<close>. The base topic is a string.
\<close>

record connector =
  mqtt_topic :: string
  rcv_topic :: "string option"
  raw_payload :: "bytes option"
  img_payload :: "bytes option"
  mqtt_vac_stat :: "string option"
  mqtt_vac_err :: "string option"
  data_in :: bool

record mqtt_message =
  msg_topic :: string
  msg_payload :: bytes

subsection \<open>\<open>on_message_callback\<close>\<close>

text \<open>
  The callback returns the connector as it is when the callback ends, and the exception
  when it ends by raising. The assignments before a failing \<open>bytes.decode\<close> have
  happened. The arguments \<open>client\<close> and \<open>userdata\<close> are not used.
\<close>

definition on_message_callback :: "connector \<Rightarrow> mqtt_message \<Rightarrow> connector \<times> py_error option" where
  "on_message_callback self msg =
     (let s1 = self\<lparr>rcv_topic := Some (msg_topic msg)\<rparr> in
      if msg_topic msg = mqtt_topic self @ ''/MapData/map-data-hass'' then
        (s1\<lparr>img_payload := Some (msg_payload msg), data_in := True\<rparr>, None)
      else if msg_topic msg = mqtt_topic self @ ''/StatusStateAttribute/status'' then
        (let s2 = s1\<lparr>raw_payload := Some (msg_payload msg)\<rparr> in
         if msg_payload msg \<noteq> [] then
           (case bytes_decode (msg_payload msg) of
              Inl e \<Rightarrow> (s2, Some e)
            | Inr text \<Rightarrow> (s2\<lparr>mqtt_vac_stat := Some text\<rparr>, None))
         else (s2, None))
      else if msg_topic msg = mqtt_topic self @ ''/StatusStateAttribute/error_description'' then
        (let s2 = s1\<lparr>raw_payload := Some (msg_payload msg)\<rparr> in
         case bytes_decode (msg_payload msg) of
           Inl e \<Rightarrow> (s2, Some e)
         | Inr text \<Rightarrow> (s2\<lparr>mqtt_vac_err := Some text\<rparr>, None))
      else (s1, None))"

text \<open>Messages handled in receipt order; an exception ends the run.\<close>

fun on_messages :: "connector \<Rightarrow> mqtt_message list \<Rightarrow> connector \<times> py_error option" where
  "on_messages self [] = (self, None)"
| "on_messages self (msg # msgs) =
     (case on_message_callback self msg of
        (s, Some e) \<Rightarrow> (s, Some e)
      | (s, None) \<Rightarrow> on_messages s msgs)"

subsection \<open>\<open>update_data\<close> and the accessors\<close>

text \<open>
  \<open>camera_message_received\<close> of the decoder class \<open>RawToJson\<close> is a parameter: it takes
  the payload and the base topic and returns a result (possibly \<open>None\<close>) or raises.
  \<open>update_data\<close> returns its result with the connector afterwards; when the decoder raises,
  nothing has been assigned.
\<close>

definition update_data ::
  "(bytes \<Rightarrow> string \<Rightarrow> py_error + 'j option) \<Rightarrow> connector \<Rightarrow> bool
    \<Rightarrow> py_error + ('j option \<times> connector)" where
  "update_data camera_message_received self process =
     (if img_payload self \<noteq> None \<and> img_payload self \<noteq> Some [] then
        (if process then
           (case camera_message_received (the (img_payload self)) (mqtt_topic self) of
              Inl e \<Rightarrow> Inl e
            | Inr result \<Rightarrow> Inr (result, self\<lparr>data_in := False\<rparr>))
         else Inr (None, self\<lparr>data_in := False\<rparr>))
      else Inr (None, self))"

definition get_vacuum_status :: "connector \<Rightarrow> string option" where
  "get_vacuum_status self = mqtt_vac_stat self"

definition get_vacuum_error :: "connector \<Rightarrow> string option" where
  "get_vacuum_error self = mqtt_vac_err self"

definition is_data_available :: "connector \<Rightarrow> bool" where
  "is_data_available self = data_in self"

section \<open>Vocabulary of the specification\<close>

text \<open>
  "Begins, case-insensitively, with the prefix": the string has a head that matches the
  prefix letter by letter, two characters matching when they are equal or are the upper-case
  and lower-case form of one ASCII letter.
\<close>

definition same_letter :: "char \<Rightarrow> char \<Rightarrow> bool" where
  "same_letter c d =
     (c = d \<or> (ascii_upper c \<and> byte d = byte c + 32)
            \<or> (ascii_upper d \<and> byte c = byte d + 32))"

definition begins_ignoring_case :: "string \<Rightarrow> string \<Rightarrow> bool" where
  "begins_ignoring_case s p = (\<exists>h t. s = h @ t \<and> list_all2 same_letter h p)"

section \<open>Example values\<close>

text \<open>
  A connector for the base topic \<open>valetudo/tango\<close> that has a status and an error cached
  and no map payload, and a decoder that returns the payload it is given.
\<close>

definition example_connector :: connector where
  "example_connector =
     \<lparr>mqtt_topic = ''valetudo/tango'', rcv_topic = None, raw_payload = None,
      img_payload = None, mqtt_vac_stat = Some ''cleaning'', mqtt_vac_err = Some ''none'',
      data_in = False\<rparr>"

definition example_decoder :: "bytes \<Rightarrow> string \<Rightarrow> py_error + bytes option" where
  "example_decoder payload topic = Inr (Some payload)"

text \<open>
  A host with one device \<open>dev1\<close>, whose software version is the parameter, and three
  entities on it: a sensor and two vacuums. The first subscription of \<open>vacuum.tango\<close>
  is \<open>tango/state\<close>, so its base topic is \<open>tango\<close>.
\<close>

definition example_hass :: "string option \<Rightarrow> hass" where
  "example_hass version =
     \<lparr>dev_reg = [''dev1'' \<mapsto> \<lparr>sw_version = version\<rparr>],
      entity_reg =
        [\<lparr>entry_entity_id = ''sensor.tango_battery'', entry_device_id = Some ''dev1'',
          entry_domain = ''sensor''\<rparr>,
         \<lparr>entry_entity_id = ''vacuum.tango'', entry_device_id = Some ''dev1'',
          entry_domain = ''vacuum''\<rparr>,
         \<lparr>entry_entity_id = ''vacuum.tango_2'', entry_device_id = Some ''dev1'',
          entry_domain = ''vacuum''\<rparr>],
      debug_info_entities =
        [''vacuum.tango'' \<mapsto> Some [''tango/state'', ''tango/attributes''],
         ''vacuum.tango_2'' \<mapsto> Some [''other/state'']]\<rparr>"

section \<open>Firmware classification\<close>

lemma lower_char_eq_iff:
  assumes "\<not> ascii_upper d"
  shows "lower_char c = d \<longleftrightarrow> same_letter c d"
proof (cases "ascii_upper c")
  case True
  then have "byte c + 32 < 256"
    by (simp add: ascii_upper_def)
  then have "char_of (byte c + 32) = d \<longleftrightarrow> byte d = byte c + 32"
    by (auto simp: char_of_eq_iff take_bit_eq_mod byte_def)
  with True assms show ?thesis
    by (auto simp: lower_char_def same_letter_def)
next
  case False
  with assms show ?thesis
    by (auto simp: lower_char_def same_letter_def)
qed

lemma map_lower_char_eq_iff:
  assumes "\<forall>d \<in> set p. \<not> ascii_upper d"
  shows "map lower_char h = p \<longleftrightarrow> list_all2 same_letter h p"
proof -
  have "map lower_char h = p \<longleftrightarrow>
        length h = length p \<and> (\<forall>i<length h. lower_char (h ! i) = p ! i)"
    by (auto simp: list_eq_iff_nth_eq)
  also have "\<dots> \<longleftrightarrow> length h = length p \<and> (\<forall>i<length h. same_letter (h ! i) (p ! i))"
    using assms by (auto simp: lower_char_eq_iff)
  also have "\<dots> \<longleftrightarrow> list_all2 same_letter h p"
    by (simp add: list_all2_conv_all_nth)
  finally show ?thesis .
qed

lemma startswith_lower_iff:
  assumes "\<forall>d \<in> set p. \<not> ascii_upper d"
  shows "startswith (lower s) p \<longleftrightarrow> begins_ignoring_case s p"
proof
  assume "startswith (lower s) p"
  then have "map lower_char (take (length p) s) = p"
    by (simp add: startswith_def lower_def take_map)
  then have "list_all2 same_letter (take (length p) s) p"
    using assms by (simp add: map_lower_char_eq_iff)
  moreover have "s = take (length p) s @ drop (length p) s"
    by simp
  ultimately show "begins_ignoring_case s p"
    unfolding begins_ignoring_case_def by blast
next
  assume "begins_ignoring_case s p"
  then obtain h t where s: "s = h @ t" and r: "list_all2 same_letter h p"
    unfolding begins_ignoring_case_def by blast
  from r have len: "length h = length p"
    by (rule list_all2_lengthD)
  from r assms have "map lower_char h = p"
    by (simp add: map_lower_char_eq_iff)
  with s len show "startswith (lower s) p"
    by (simp add: startswith_def lower_def)
qed

lemma valetudo_is_lower_case: "\<forall>d \<in> set ''valetudo''. \<not> ascii_upper d"
  by (simp add: ascii_upper_def byte_def)

lemmas classifier_eval =
  is_rand256_vacuum_def str_opt_def startswith_def lower_def lower_char_def ascii_upper_def
  byte_def char_of_eq_iff

text \<open>
  C1. \<open>is_rand256_vacuum\<close> of a device entry returns \<open>False\<close> (Hypfer) exactly when the
  software-version string, as \<open>str\<close> renders it, begins with \<open>valetudo\<close> ignoring case, and
  \<open>True\<close> (Rand256) for every other string: \<open>Valetudo 2024.1\<close> is Hypfer,
  \<open>1.2.3-custom\<close> and an absent version are Rand256.
\<close>

theorem firmware_classifier:
  "is_rand256_vacuum (Some d) = Inr (\<not> begins_ignoring_case (str_opt (sw_version d)) ''valetudo'')
   \<and> is_rand256_vacuum (Some \<lparr>sw_version = Some ''Valetudo 2024.1''\<rparr>) = Inr False
   \<and> is_rand256_vacuum (Some \<lparr>sw_version = Some ''1.2.3-custom''\<rparr>) = Inr True
   \<and> is_rand256_vacuum (Some \<lparr>sw_version = None\<rparr>) = Inr True"
proof -
  have "is_rand256_vacuum (Some d)
        = Inr (\<not> begins_ignoring_case (str_opt (sw_version d)) ''valetudo'')"
    using startswith_lower_iff [OF valetudo_is_lower_case, of "str_opt (sw_version d)"]
    by (simp add: is_rand256_vacuum_def)
  moreover have "is_rand256_vacuum (Some \<lparr>sw_version = Some ''Valetudo 2024.1''\<rparr>) = Inr False"
    by (simp add: classifier_eval)
  moreover have "is_rand256_vacuum (Some \<lparr>sw_version = Some ''1.2.3-custom''\<rparr>) = Inr True"
    by (simp add: classifier_eval)
  moreover have "is_rand256_vacuum (Some \<lparr>sw_version = None\<rparr>) = Inr True"
    by (simp add: classifier_eval)
  ultimately show ?thesis by blast
qed

text \<open>The classifier at a mixed-case version string.\<close>

theorem firmware_classifier_witness:
  "begins_ignoring_case ''vALEtudo-fork'' ''valetudo''
   \<and> is_rand256_vacuum (Some \<lparr>sw_version = Some ''vALEtudo-fork''\<rparr>) = Inr False"
proof -
  have "is_rand256_vacuum (Some \<lparr>sw_version = Some ''vALEtudo-fork''\<rparr>) = Inr False"
    by (simp add: classifier_eval)
  with firmware_classifier [of "\<lparr>sw_version = Some ''vALEtudo-fork''\<rparr>"] show ?thesis
    by (simp add: str_opt_def)
qed

section \<open>The connector's message callback and take\<close>

lemma topics_distinct:
  "b @ ''/StatusStateAttribute/status'' \<noteq> b @ ''/MapData/map-data-hass''"
  "b @ ''/StatusStateAttribute/error_description'' \<noteq> b @ ''/MapData/map-data-hass''"
  "b @ ''/StatusStateAttribute/error_description'' \<noteq> b @ ''/StatusStateAttribute/status''"
  by simp_all

lemma on_message_map:
  "msg_topic msg = mqtt_topic self @ ''/MapData/map-data-hass'' \<Longrightarrow>
   on_message_callback self msg =
     (self\<lparr>rcv_topic := Some (msg_topic msg), img_payload := Some (msg_payload msg),
            data_in := True\<rparr>, None)"
  by (simp add: on_message_callback_def)

lemma on_message_status:
  "msg_topic msg = mqtt_topic self @ ''/StatusStateAttribute/status'' \<Longrightarrow>
   on_message_callback self msg =
     (if msg_payload msg = [] then
        (self\<lparr>rcv_topic := Some (msg_topic msg), raw_payload := Some (msg_payload msg)\<rparr>, None)
      else if utf8_valid (msg_payload msg) then
        (self\<lparr>rcv_topic := Some (msg_topic msg), raw_payload := Some (msg_payload msg),
               mqtt_vac_stat := Some (msg_payload msg)\<rparr>, None)
      else
        (self\<lparr>rcv_topic := Some (msg_topic msg), raw_payload := Some (msg_payload msg)\<rparr>,
         Some UnicodeDecodeError))"
  by (simp add: on_message_callback_def bytes_decode_def Let_def)

lemma on_message_error:
  "msg_topic msg = mqtt_topic self @ ''/StatusStateAttribute/error_description'' \<Longrightarrow>
   on_message_callback self msg =
     (if utf8_valid (msg_payload msg) then
        (self\<lparr>rcv_topic := Some (msg_topic msg), raw_payload := Some (msg_payload msg),
               mqtt_vac_err := Some (msg_payload msg)\<rparr>, None)
      else
        (self\<lparr>rcv_topic := Some (msg_topic msg), raw_payload := Some (msg_payload msg)\<rparr>,
         Some UnicodeDecodeError))"
  by (simp add: on_message_callback_def bytes_decode_def Let_def)

lemma on_message_other:
  "msg_topic msg \<noteq> mqtt_topic self @ ''/MapData/map-data-hass'' \<Longrightarrow>
   msg_topic msg \<noteq> mqtt_topic self @ ''/StatusStateAttribute/status'' \<Longrightarrow>
   msg_topic msg \<noteq> mqtt_topic self @ ''/StatusStateAttribute/error_description'' \<Longrightarrow>
   on_message_callback self msg = (self\<lparr>rcv_topic := Some (msg_topic msg)\<rparr>, None)"
  by (simp add: on_message_callback_def)

text \<open>
  A status message whose payload is the single byte \<open>0xFF\<close>, which is not UTF-8: the
  callback ends with \<open>UnicodeDecodeError\<close>.
\<close>

theorem undecodable_text_raises:
  "snd (on_message_callback example_connector
          \<lparr>msg_topic = ''valetudo/tango/StatusStateAttribute/status'',
           msg_payload = [CHR 0xFF]\<rparr>) = Some UnicodeDecodeError"
  by (simp add: on_message_status example_connector_def byte_def)

text \<open>
  C2, as the code has it. A non-empty status payload or an error-description payload that
  is not valid UTF-8 makes the callback raise \<open>UnicodeDecodeError\<close> to its caller, after
  it has recorded the topic and the raw payload; the cached map payload, flag, status and
  error are as before. A message whose topic is none of the three is ignored without error:
  only the last-received topic is recorded.
\<close>

theorem on_message_malformed_or_unrecognized:
  "(msg_topic msg = mqtt_topic self @ ''/StatusStateAttribute/status''
      \<and> msg_payload msg \<noteq> [] \<and> \<not> utf8_valid (msg_payload msg)
     \<longrightarrow> on_message_callback self msg =
           (self\<lparr>rcv_topic := Some (msg_topic msg), raw_payload := Some (msg_payload msg)\<rparr>,
            Some UnicodeDecodeError))
   \<and> (msg_topic msg = mqtt_topic self @ ''/StatusStateAttribute/error_description''
      \<and> \<not> utf8_valid (msg_payload msg)
     \<longrightarrow> on_message_callback self msg =
           (self\<lparr>rcv_topic := Some (msg_topic msg), raw_payload := Some (msg_payload msg)\<rparr>,
            Some UnicodeDecodeError))
   \<and> (msg_topic msg \<noteq> mqtt_topic self @ ''/MapData/map-data-hass''
      \<and> msg_topic msg \<noteq> mqtt_topic self @ ''/StatusStateAttribute/status''
      \<and> msg_topic msg \<noteq> mqtt_topic self @ ''/StatusStateAttribute/error_description''
     \<longrightarrow> on_message_callback self msg = (self\<lparr>rcv_topic := Some (msg_topic msg)\<rparr>, None))"
  by (simp add: on_message_status on_message_error on_message_other)

text \<open>The three cases of C2 on the example connector.\<close>

theorem on_message_malformed_or_unrecognized_witness:
  "on_message_callback example_connector
     \<lparr>msg_topic = ''valetudo/tango/StatusStateAttribute/status'', msg_payload = [CHR 0xC3]\<rparr>
   = (example_connector
        \<lparr>rcv_topic := Some ''valetudo/tango/StatusStateAttribute/status'',
         raw_payload := Some [CHR 0xC3]\<rparr>, Some UnicodeDecodeError)
   \<and> on_message_callback example_connector
     \<lparr>msg_topic = ''valetudo/tango/StatusStateAttribute/error_description'',
      msg_payload = [CHR 0x80]\<rparr>
   = (example_connector
        \<lparr>rcv_topic := Some ''valetudo/tango/StatusStateAttribute/error_description'',
         raw_payload := Some [CHR 0x80]\<rparr>, Some UnicodeDecodeError)
   \<and> on_message_callback example_connector
     \<lparr>msg_topic = ''valetudo/tango/BatteryStateAttribute/level'', msg_payload = ''87''\<rparr>
   = (example_connector\<lparr>rcv_topic := Some ''valetudo/tango/BatteryStateAttribute/level''\<rparr>,
      None)"
proof -
  have t: "mqtt_topic example_connector = ''valetudo/tango''"
    by (simp add: example_connector_def)
  show ?thesis
    using
      on_message_malformed_or_unrecognized [of
        "\<lparr>msg_topic = ''valetudo/tango/StatusStateAttribute/status'', msg_payload = [CHR 0xC3]\<rparr>"
        example_connector]
      on_message_malformed_or_unrecognized [of
        "\<lparr>msg_topic = ''valetudo/tango/StatusStateAttribute/error_description'',
          msg_payload = [CHR 0x80]\<rparr>"
        example_connector]
      on_message_malformed_or_unrecognized [of
        "\<lparr>msg_topic = ''valetudo/tango/BatteryStateAttribute/level'', msg_payload = ''87''\<rparr>"
        example_connector]
    by (simp add: t byte_def)
qed

lemma update_data_cached:
  "img_payload self = Some p \<Longrightarrow> p \<noteq> [] \<Longrightarrow>
   update_data dec self True =
     (case dec p (mqtt_topic self) of
        Inl e \<Rightarrow> Inl e
      | Inr result \<Rightarrow> Inr (result, self\<lparr>data_in := False\<rparr>))"
  by (simp add: update_data_def)

lemma update_data_empty:
  "img_payload self = None \<or> img_payload self = Some [] \<Longrightarrow>
   update_data dec self True = Inr (None, self)"
  by (auto simp: update_data_def)

text \<open>
  Two takes in a row with no message in between: the second decodes the cached payload
  again and returns the same result, not \<open>None\<close>.
\<close>

theorem second_take_returns_result_again:
  "update_data example_decoder
     (example_connector\<lparr>img_payload := Some ''map'', data_in := True\<rparr>) True
   = Inr (Some ''map'', example_connector\<lparr>img_payload := Some ''map'', data_in := False\<rparr>)
   \<and> update_data example_decoder
     (example_connector\<lparr>img_payload := Some ''map'', data_in := False\<rparr>) True
   = Inr (Some ''map'', example_connector\<lparr>img_payload := Some ''map'', data_in := False\<rparr>)"
  by (simp add: update_data_def example_decoder_def example_connector_def)

text \<open>
  C6, as the code has it. With a non-empty payload cached and a decoder that returns,
  \<open>update_data\<close> with \<open>process=True\<close> returns the decoder's result and clears the
  data-available flag; with no payload (or an empty one) cached it returns \<open>None\<close> without
  raising and changes nothing. After a take, with no new message, \<open>is_data_available\<close> is
  \<open>False\<close>, while a second take decodes the payload still cached and returns the same
  result again.
\<close>

theorem update_data_take:
  "(img_payload self = Some p \<and> p \<noteq> [] \<and> dec p (mqtt_topic self) = Inr result
     \<longrightarrow> update_data dec self True = Inr (result, self\<lparr>data_in := False\<rparr>)
         \<and> is_data_available (self\<lparr>data_in := False\<rparr>) = False
         \<and> update_data dec (self\<lparr>data_in := False\<rparr>) True
             = Inr (result, self\<lparr>data_in := False\<rparr>))
   \<and> (img_payload self = None \<or> img_payload self = Some []
     \<longrightarrow> update_data dec self True = Inr (None, self))"
  by (simp add: update_data_cached update_data_empty is_data_available_def)

text \<open>A take, a second take, and a take with nothing cached, on the example connector.\<close>

theorem update_data_take_witness:
  "update_data example_decoder
     (example_connector\<lparr>img_payload := Some ''raw'', data_in := True\<rparr>) True
   = Inr (Some ''raw'', example_connector\<lparr>img_payload := Some ''raw'', data_in := False\<rparr>)
   \<and> is_data_available (example_connector\<lparr>img_payload := Some ''raw'', data_in := False\<rparr>)
       = False
   \<and> update_data example_decoder
     (example_connector\<lparr>img_payload := Some ''raw'', data_in := False\<rparr>) True
   = Inr (Some ''raw'', example_connector\<lparr>img_payload := Some ''raw'', data_in := False\<rparr>)
   \<and> update_data example_decoder example_connector True = Inr (None, example_connector)"
  using
    update_data_take [of "example_connector\<lparr>img_payload := Some ''raw'', data_in := True\<rparr>"
      "''raw''" example_decoder "Some ''raw''"]
    update_data_take [of example_connector "''raw''" example_decoder "Some ''raw''"]
  by (simp add: example_decoder_def example_connector_def)

lemma on_messages_map:
  assumes "\<forall>m \<in> set msgs. msg_topic m = mqtt_topic self @ ''/MapData/map-data-hass''"
    and "msgs \<noteq> []"
  shows "on_messages self msgs =
     (self\<lparr>rcv_topic := Some (mqtt_topic self @ ''/MapData/map-data-hass''),
            img_payload := Some (msg_payload (last msgs)), data_in := True\<rparr>, None)"
  using assms
proof (induction msgs arbitrary: self)
  case Nil
  then show ?case by simp
next
  case (Cons m ms)
  let ?s = "self\<lparr>rcv_topic := Some (msg_topic m), img_payload := Some (msg_payload m),
                  data_in := True\<rparr>"
  from Cons.prems have m: "msg_topic m = mqtt_topic self @ ''/MapData/map-data-hass''"
    by simp
  then have step: "on_message_callback self m = (?s, None)"
    by (rule on_message_map)
  show ?case
  proof (cases "ms = []")
    case True
    with step m show ?thesis by simp
  next
    case False
    from Cons.prems have "\<forall>x \<in> set ms. msg_topic x = mqtt_topic ?s @ ''/MapData/map-data-hass''"
      by simp
    from Cons.IH [OF this False] step False show ?thesis
      by simp
  qed
qed

text \<open>
  C7. After a non-empty sequence of messages on the map-data topic, handled in receipt
  order, no exception has been raised, the cached map payload is the payload of the last
  message and the data-available flag is set; the next take hands that payload (when it
  is not empty) to the decoder and returns what the decoder returns.
\<close>

theorem map_messages_last_wins:
  assumes "msgs \<noteq> []"
    and "\<forall>m \<in> set msgs. msg_topic m = mqtt_topic self @ ''/MapData/map-data-hass''"
  shows "snd (on_messages self msgs) = None
     \<and> img_payload (fst (on_messages self msgs)) = Some (msg_payload (last msgs))
     \<and> is_data_available (fst (on_messages self msgs))
     \<and> (msg_payload (last msgs) \<noteq> [] \<longrightarrow>
          update_data dec (fst (on_messages self msgs)) True =
            (case dec (msg_payload (last msgs)) (mqtt_topic self) of
               Inl e \<Rightarrow> Inl e
             | Inr result \<Rightarrow> Inr (result, (fst (on_messages self msgs))\<lparr>data_in := False\<rparr>)))"
  using on_messages_map [OF assms(2) assms(1)]
  by (simp add: is_data_available_def update_data_cached split: sum.split)

text \<open>Two map messages on the example connector: the second payload is the one cached.\<close>

theorem map_messages_last_wins_witness:
  "snd (on_messages example_connector
          [\<lparr>msg_topic = ''valetudo/tango/MapData/map-data-hass'', msg_payload = ''first''\<rparr>,
           \<lparr>msg_topic = ''valetudo/tango/MapData/map-data-hass'', msg_payload = ''second''\<rparr>])
     = None
   \<and> img_payload (fst (on_messages example_connector
          [\<lparr>msg_topic = ''valetudo/tango/MapData/map-data-hass'', msg_payload = ''first''\<rparr>,
           \<lparr>msg_topic = ''valetudo/tango/MapData/map-data-hass'', msg_payload = ''second''\<rparr>]))
     = Some ''second''
   \<and> update_data example_decoder (fst (on_messages example_connector
          [\<lparr>msg_topic = ''valetudo/tango/MapData/map-data-hass'', msg_payload = ''first''\<rparr>,
           \<lparr>msg_topic = ''valetudo/tango/MapData/map-data-hass'', msg_payload = ''second''\<rparr>]))
        True
     = Inr (Some ''second'',
         example_connector
           \<lparr>rcv_topic := Some ''valetudo/tango/MapData/map-data-hass'',
            img_payload := Some ''second'', data_in := False\<rparr>)"
proof -
  have t: "mqtt_topic example_connector = ''valetudo/tango''"
    by (simp add: example_connector_def)
  show ?thesis
    using map_messages_last_wins [of
        "[\<lparr>msg_topic = ''valetudo/tango/MapData/map-data-hass'', msg_payload = ''first''\<rparr>,
          \<lparr>msg_topic = ''valetudo/tango/MapData/map-data-hass'', msg_payload = ''second''\<rparr>]"
        example_connector example_decoder]
    by (simp add: t example_decoder_def on_message_map)
qed

text \<open>
  A status message with an empty payload: the callback returns with the map payload, the
  flag, the status and the error all as they were, so no cache has been updated.
\<close>

theorem empty_status_updates_no_cache:
  "on_message_callback example_connector
     \<lparr>msg_topic = ''valetudo/tango/StatusStateAttribute/status'', msg_payload = []\<rparr>
   = (example_connector
        \<lparr>rcv_topic := Some ''valetudo/tango/StatusStateAttribute/status'',
         raw_payload := Some []\<rparr>, None)
   \<and> mqtt_vac_stat example_connector = Some ''cleaning''"
  by (simp add: on_message_status example_connector_def)

text \<open>
  C8, as the code has it. A message on one of the three topics writes at most one of the
  three caches, the one its topic selects, and leaves the other two unchanged. A map-data
  message always stores its payload and sets the flag, and never touches the status or the
  error. A status message stores the status only when its payload is non-empty and valid
  UTF-8; an error-description message stores the error only when its payload is valid UTF-8.
\<close>

theorem on_message_frame:
  "(msg_topic msg = mqtt_topic self @ ''/MapData/map-data-hass'' \<longrightarrow>
      img_payload (fst (on_message_callback self msg)) = Some (msg_payload msg)
      \<and> data_in (fst (on_message_callback self msg))
      \<and> mqtt_vac_stat (fst (on_message_callback self msg)) = mqtt_vac_stat self
      \<and> mqtt_vac_err (fst (on_message_callback self msg)) = mqtt_vac_err self)
   \<and> (msg_topic msg = mqtt_topic self @ ''/StatusStateAttribute/status'' \<longrightarrow>
      mqtt_vac_stat (fst (on_message_callback self msg)) =
        (if msg_payload msg \<noteq> [] \<and> utf8_valid (msg_payload msg)
         then Some (msg_payload msg) else mqtt_vac_stat self)
      \<and> img_payload (fst (on_message_callback self msg)) = img_payload self
      \<and> data_in (fst (on_message_callback self msg)) = data_in self
      \<and> mqtt_vac_err (fst (on_message_callback self msg)) = mqtt_vac_err self)
   \<and> (msg_topic msg = mqtt_topic self @ ''/StatusStateAttribute/error_description'' \<longrightarrow>
      mqtt_vac_err (fst (on_message_callback self msg)) =
        (if utf8_valid (msg_payload msg) then Some (msg_payload msg) else mqtt_vac_err self)
      \<and> img_payload (fst (on_message_callback self msg)) = img_payload self
      \<and> data_in (fst (on_message_callback self msg)) = data_in self
      \<and> mqtt_vac_stat (fst (on_message_callback self msg)) = mqtt_vac_stat self)"
  by (simp add: on_message_map on_message_status on_message_error)

text \<open>One message on each of the three topics, on the example connector.\<close>

theorem on_message_frame_witness:
  "img_payload (fst (on_message_callback example_connector
      \<lparr>msg_topic = ''valetudo/tango/MapData/map-data-hass'', msg_payload = ''pixels''\<rparr>))
     = Some ''pixels''
   \<and> mqtt_vac_stat (fst (on_message_callback example_connector
      \<lparr>msg_topic = ''valetudo/tango/MapData/map-data-hass'', msg_payload = ''pixels''\<rparr>))
     = Some ''cleaning''
   \<and> mqtt_vac_err (fst (on_message_callback example_connector
      \<lparr>msg_topic = ''valetudo/tango/MapData/map-data-hass'', msg_payload = ''pixels''\<rparr>))
     = Some ''none''
   \<and> mqtt_vac_stat (fst (on_message_callback example_connector
      \<lparr>msg_topic = ''valetudo/tango/StatusStateAttribute/status'', msg_payload = ''docked''\<rparr>))
     = Some ''docked''
   \<and> mqtt_vac_err (fst (on_message_callback example_connector
      \<lparr>msg_topic = ''valetudo/tango/StatusStateAttribute/status'', msg_payload = ''docked''\<rparr>))
     = Some ''none''
   \<and> mqtt_vac_err (fst (on_message_callback example_connector
      \<lparr>msg_topic = ''valetudo/tango/StatusStateAttribute/error_description'',
       msg_payload = ''stuck''\<rparr>))
     = Some ''stuck''
   \<and> mqtt_vac_stat (fst (on_message_callback example_connector
      \<lparr>msg_topic = ''valetudo/tango/StatusStateAttribute/error_description'',
       msg_payload = ''stuck''\<rparr>))
     = Some ''cleaning''"
proof -
  have t: "mqtt_topic example_connector = ''valetudo/tango''"
    and s: "mqtt_vac_stat example_connector = Some ''cleaning''"
    and e: "mqtt_vac_err example_connector = Some ''none''"
    by (simp_all add: example_connector_def)
  show ?thesis
    using
      on_message_frame [of
        "\<lparr>msg_topic = ''valetudo/tango/MapData/map-data-hass'', msg_payload = ''pixels''\<rparr>"
        example_connector]
      on_message_frame [of
        "\<lparr>msg_topic = ''valetudo/tango/StatusStateAttribute/status'', msg_payload = ''docked''\<rparr>"
        example_connector]
      on_message_frame [of
        "\<lparr>msg_topic = ''valetudo/tango/StatusStateAttribute/error_description'',
          msg_payload = ''stuck''\<rparr>"
        example_connector]
    by (simp add: t s e byte_def)
qed

text \<open>
  C9. An empty payload on the status topic leaves the cached status as it was; an empty
  payload on the error-description topic replaces the cached error by the empty string.
  Neither raises.
\<close>

theorem empty_payload_asymmetry:
  "on_message_callback self
     \<lparr>msg_topic = mqtt_topic self @ ''/StatusStateAttribute/status'', msg_payload = []\<rparr>
   = (self\<lparr>rcv_topic := Some (mqtt_topic self @ ''/StatusStateAttribute/status''),
            raw_payload := Some []\<rparr>, None)
   \<and> mqtt_vac_stat (fst (on_message_callback self
        \<lparr>msg_topic = mqtt_topic self @ ''/StatusStateAttribute/status'', msg_payload = []\<rparr>))
     = mqtt_vac_stat self
   \<and> on_message_callback self
     \<lparr>msg_topic = mqtt_topic self @ ''/StatusStateAttribute/error_description'',
      msg_payload = []\<rparr>
   = (self\<lparr>rcv_topic := Some (mqtt_topic self @ ''/StatusStateAttribute/error_description''),
            raw_payload := Some [], mqtt_vac_err := Some []\<rparr>, None)"
  by (simp add: on_message_status on_message_error)

text \<open>Both empty payloads on the example connector, whose status is \<open>cleaning\<close>.\<close>

theorem empty_payload_asymmetry_witness:
  "mqtt_vac_stat (fst (on_message_callback example_connector
        \<lparr>msg_topic = ''valetudo/tango/StatusStateAttribute/status'', msg_payload = []\<rparr>))
     = Some ''cleaning''
   \<and> mqtt_vac_err (fst (on_message_callback example_connector
        \<lparr>msg_topic = ''valetudo/tango/StatusStateAttribute/error_description'',
         msg_payload = []\<rparr>))
     = Some []"
proof -
  have t: "mqtt_topic example_connector = ''valetudo/tango''"
    and s: "mqtt_vac_stat example_connector = Some ''cleaning''"
    by (simp_all add: example_connector_def)
  from empty_payload_asymmetry [of example_connector] show ?thesis
    by (simp add: t s)
qed

section \<open>Merging the options\<close>

lemma merge_options_result:
  "merge_options keys bk_options new_options updated_options =
     (if \<exists>k \<in> set keys. new_options k = None \<and> bk_options k = None then Inl KeyError
      else Inr (\<lambda>k. if k \<in> set keys
                     then (case new_options k of Some v \<Rightarrow> Some v | None \<Rightarrow> bk_options k)
                     else updated_options k))"
proof (induction keys arbitrary: updated_options)
  case Nil
  then show ?case by simp
next
  case (Cons key keys)
  show ?case
  proof (cases "new_options key")
    case None
    note new = this
    show ?thesis
    proof (cases "bk_options key")
      case None
      with new show ?thesis by simp
    next
      case (Some v)
      with new show ?thesis
        by (simp add: Cons.IH) (auto simp: fun_eq_iff)
    qed
  next
    case (Some v)
    then show ?thesis
      by (simp add: Cons.IH) (auto simp: fun_eq_iff)
  qed
qed

text \<open>
  C10. For both versions of \<open>update_options\<close>: when some key of the update-key list is
  in neither dictionary the function returns \<open>bk_options\<close> as it is; otherwise it returns
  the dictionary whose keys are exactly those of the list, each with the value of
  \<open>new_options\<close> when the key is there and the value of \<open>bk_options\<close> when it is not.
\<close>

theorem update_options_atomic:
  "update_options keys bk_options new_options =
     (if \<exists>k \<in> set keys. new_options k = None \<and> bk_options k = None then bk_options
      else (\<lambda>k. if k \<in> set keys
                then (case new_options k of Some v \<Rightarrow> Some v | None \<Rightarrow> bk_options k)
                else None))
   \<and> update_options_valetudo bk_options new_options =
     (if \<exists>k \<in> set keys_to_update. new_options k = None \<and> bk_options k = None then bk_options
      else (\<lambda>k. if k \<in> set keys_to_update
                then (case new_options k of Some v \<Rightarrow> Some v | None \<Rightarrow> bk_options k)
                else None))"
  by (simp add: update_options_def update_options_valetudo_def merge_options_result
      del: bex_simps ball_simps)

text \<open>
  A merge over two keys, and two calls in which a listed key is in neither dictionary.
\<close>

theorem update_options_atomic_witness:
  "update_options [''margins'', ''auto_zoom'']
     [''margins'' \<mapsto> (100::int), ''auto_zoom'' \<mapsto> 0, ''legacy'' \<mapsto> 7] [''auto_zoom'' \<mapsto> 1]
     ''margins'' = Some 100
   \<and> update_options [''margins'', ''auto_zoom'']
     [''margins'' \<mapsto> (100::int), ''auto_zoom'' \<mapsto> 0, ''legacy'' \<mapsto> 7] [''auto_zoom'' \<mapsto> 1]
     ''auto_zoom'' = Some 1
   \<and> update_options [''margins'', ''auto_zoom'']
     [''margins'' \<mapsto> (100::int), ''auto_zoom'' \<mapsto> 0, ''legacy'' \<mapsto> 7] [''auto_zoom'' \<mapsto> 1]
     ''legacy'' = None
   \<and> update_options [''margins'', ''aspect_ratio'']
     [''margins'' \<mapsto> (100::int), ''legacy'' \<mapsto> 7] [''margins'' \<mapsto> 50]
     = [''margins'' \<mapsto> 100, ''legacy'' \<mapsto> 7]
   \<and> update_options_valetudo [''margins'' \<mapsto> (100::int)] [''margins'' \<mapsto> 50]
     = [''margins'' \<mapsto> 100]"
proof -
  have "rotate_image_key \<in> set keys_to_update" if "rotate_image_key = ''rotate_image''"
    for rotate_image_key
    using that by (simp add: keys_to_update_def)
  then have missing:
    "\<exists>k \<in> set keys_to_update. [''margins'' \<mapsto> (50::int)] k = None
        \<and> [''margins'' \<mapsto> (100::int)] k = None"
    by (intro bexI [of _ "''rotate_image''"]) simp_all
  show ?thesis
    using
      update_options_atomic [of "[''margins'', ''auto_zoom'']"
        "[''margins'' \<mapsto> (100::int), ''auto_zoom'' \<mapsto> 0, ''legacy'' \<mapsto> 7]"
        "[''auto_zoom'' \<mapsto> 1]"]
      update_options_atomic [of "[''margins'', ''aspect_ratio'']"
        "[''margins'' \<mapsto> (100::int), ''legacy'' \<mapsto> 7]" "[''margins'' \<mapsto> 50]"]
      update_options_atomic [of "[]" "[''margins'' \<mapsto> (100::int)]" "[''margins'' \<mapsto> 50]"]
      missing
    by simp
qed

section \<open>Go-to dispatch\<close>

lemmas dispatch_eval =
  generate_service_data_go_to_def service_data_for_def subscript0_def
  get_vacuum_mqtt_topic_def get_device_info_from_entity_id_def vacuum_entities_of_def
  xy_dict_def example_hass_def
  is_rand256_vacuum_def str_opt_def startswith_def lower_def lower_char_def ascii_upper_def
  byte_def char_of_eq_iff

lemma service_data_for_first:
  "service_data_for entity_id (Some (e # es)) x y spot_id h =
   service_data_for entity_id (Some [e]) x y spot_id h"
  by (simp add: service_data_for_def subscript0_def)

lemma generate_by_entity:
  "device_id = None \<or> device_id = Some [] \<Longrightarrow>
   generate_service_data_go_to (Some (e # es)) device_id x y spot_id h =
   service_data_for (Some (e # es)) (Some [e]) x y spot_id h"
  using service_data_for_first [of "Some (e # es)" e es x y spot_id h]
  by (auto simp: generate_service_data_go_to_def)

lemma generate_by_device:
  "from_device_ids_to_entity_ids (d # ds) h = Inr (Some (e # es)) \<Longrightarrow>
   generate_service_data_go_to entity_id (Some (d # ds)) x y spot_id h =
   service_data_for entity_id (Some [e]) x y spot_id h"
  using service_data_for_first [of entity_id e es x y spot_id h]
  by (simp add: generate_service_data_go_to_def)

lemma service_data_for_hypfer:
  assumes "get_vacuum_mqtt_topic e h = Inr (Some B)"
    and "is_rand256_vacuum (get_device_info_from_entity_id e h) = Inr False"
    and "py_int x = Inr xi" and "py_int y = Inr yi"
  shows "service_data_for entity_id (Some [e]) x y spot_id h =
     Inr (Some \<lparr>sd_entity_id = entity_id,
                sd_topic = B @ ''/GoToLocationCapability/go/set'',
                sd_payload = JObj [(''coordinates'', JObj [(''x'', JInt xi), (''y'', JInt yi)])],
                sd_firmware = ''Valetudo''\<rparr>)"
  using assms by (simp add: service_data_for_def subscript0_def xy_dict_def str_opt_def)

lemma service_data_for_rand256_spot:
  assumes "get_vacuum_mqtt_topic e h = Inr (Some B)"
    and "is_rand256_vacuum (get_device_info_from_entity_id e h) = Inr True"
    and "s \<noteq> []"
  shows "service_data_for entity_id (Some [e]) x y (Some s) h =
     Inr (Some \<lparr>sd_entity_id = entity_id,
                sd_topic = B @ ''/custom_command'',
                sd_payload = JObj [(''command'', JStr ''go_to''), (''spot_id'', JStr s)],
                sd_firmware = ''Rand256''\<rparr>)"
  using assms by (simp add: service_data_for_def subscript0_def str_opt_def)

lemma service_data_for_rand256_xy:
  assumes "get_vacuum_mqtt_topic e h = Inr (Some B)"
    and "is_rand256_vacuum (get_device_info_from_entity_id e h) = Inr True"
    and "spot_id = None \<or> spot_id = Some []"
    and "py_int x = Inr xi" and "py_int y = Inr yi"
  shows "service_data_for entity_id (Some [e]) x y spot_id h =
     Inr (Some \<lparr>sd_entity_id = entity_id,
                sd_topic = B @ ''/custom_command'',
                sd_payload = JObj [(''command'', JStr ''go_to''),
                   (''spot_coordinates'', JObj [(''x'', JInt xi), (''y'', JInt yi)])],
                sd_firmware = ''Rand256''\<rparr>)"
  using assms by (auto simp: service_data_for_def subscript0_def xy_dict_def str_opt_def)

text \<open>
  A device with two vacuum entities: the resolution returns both, and the dispatch succeeds
  with the command for the first one.
\<close>

theorem ambiguous_device_uses_first_entity:
  "from_device_ids_to_entity_ids [''dev1''] (example_hass (Some ''Valetudo 2024.1''))
     = Inr (Some [''vacuum.tango'', ''vacuum.tango_2''])
   \<and> generate_service_data_go_to None (Some [''dev1'']) (PyInt 100) (PyInt 200) None
       (example_hass (Some ''Valetudo 2024.1''))
     = Inr (Some \<lparr>sd_entity_id = None,
                  sd_topic = ''tango/GoToLocationCapability/go/set'',
                  sd_payload =
                    JObj [(''coordinates'', JObj [(''x'', JInt 100), (''y'', JInt 200)])],
                  sd_firmware = ''Valetudo''\<rparr>)"
  by (simp add: dispatch_eval)

text \<open>
  C3, as the code has it. For a dispatch addressed by device identifiers whose first device
  is registered and has at least one vacuum entity, the resolution returns the identifiers
  of all entries of the entity registry that belong to that device and to the vacuum
  domain, in registry order, and the command is the one built for the first of them,
  whether or not there are more.
\<close>

theorem device_target_uses_first_entity:
  "dev_reg h d = Some dev \<and> vacuum_entities_of h d = e # es \<longrightarrow>
     from_device_ids_to_entity_ids (d # ds) h = Inr (Some (e # es))
     \<and> set (e # es) =
         entry_entity_id `
           {entry. entry \<in> set (entity_reg h) \<and> entry_device_id entry = Some d
                   \<and> entry_domain entry = ''vacuum''}
     \<and> generate_service_data_go_to entity_id (Some (d # ds)) x y spot_id h =
         service_data_for entity_id (Some [e]) x y spot_id h"
proof
  assume a: "dev_reg h d = Some dev \<and> vacuum_entities_of h d = e # es"
  then have r: "from_device_ids_to_entity_ids (d # ds) h = Inr (Some (e # es))"
    by (simp add: is_rand256_vacuum_def)
  have "set (vacuum_entities_of h d) =
         entry_entity_id `
           {entry. entry \<in> set (entity_reg h) \<and> entry_device_id entry = Some d
                   \<and> entry_domain entry = ''vacuum''}"
    by (simp add: vacuum_entities_of_def)
  with a have s: "set (e # es) =
         entry_entity_id `
           {entry. entry \<in> set (entity_reg h) \<and> entry_device_id entry = Some d
                   \<and> entry_domain entry = ''vacuum''}"
    by simp
  from r have g: "generate_service_data_go_to entity_id (Some (d # ds)) x y spot_id h =
         service_data_for entity_id (Some [e]) x y spot_id h"
    by (rule generate_by_device)
  from r s g show "from_device_ids_to_entity_ids (d # ds) h = Inr (Some (e # es))
     \<and> set (e # es) =
         entry_entity_id `
           {entry. entry \<in> set (entity_reg h) \<and> entry_device_id entry = Some d
                   \<and> entry_domain entry = ''vacuum''}
     \<and> generate_service_data_go_to entity_id (Some (d # ds)) x y spot_id h =
         service_data_for entity_id (Some [e]) x y spot_id h"
    by (intro conjI)
qed

text \<open>The example device, which has two vacuum entities: the command is that of the first.\<close>

theorem device_target_uses_first_entity_witness:
  "from_device_ids_to_entity_ids [''dev1''] (example_hass (Some ''1.2.3-custom''))
     = Inr (Some [''vacuum.tango'', ''vacuum.tango_2''])
   \<and> generate_service_data_go_to None (Some [''dev1'']) PyNone PyNone (Some ''kitchen'')
       (example_hass (Some ''1.2.3-custom''))
     = service_data_for None (Some [''vacuum.tango'']) PyNone PyNone (Some ''kitchen'')
         (example_hass (Some ''1.2.3-custom''))"
proof -
  have v: "vacuum_entities_of (example_hass (Some ''1.2.3-custom'')) ''dev1''
            = [''vacuum.tango'', ''vacuum.tango_2'']"
    by (simp add: vacuum_entities_of_def example_hass_def)
  have d: "dev_reg (example_hass (Some ''1.2.3-custom'')) ''dev1''
            = Some \<lparr>sw_version = Some ''1.2.3-custom''\<rparr>"
    by (simp add: example_hass_def)
  from device_target_uses_first_entity [where h = "example_hass (Some ''1.2.3-custom'')"
      and d = "''dev1''" and dev = "\<lparr>sw_version = Some ''1.2.3-custom''\<rparr>"
      and e = "''vacuum.tango''" and es = "[''vacuum.tango_2'']" and ds = "[]"
      and entity_id = None and x = PyNone and y = PyNone and spot_id = "Some ''kitchen''"]
    d v
  show ?thesis
    by blast
qed

lemma generate_resolved:
  assumes "(device_id = None \<or> device_id = Some []) \<and> entity_id = Some (e # es)
      \<or> (\<exists>d ds. device_id = Some (d # ds)
            \<and> from_device_ids_to_entity_ids (d # ds) h = Inr (Some (e # es)))"
  shows "generate_service_data_go_to entity_id device_id x y spot_id h =
      service_data_for entity_id (Some [e]) x y spot_id h"
proof -
  from assms consider
      (entity) "device_id = None \<or> device_id = Some []" and "entity_id = Some (e # es)"
    | (device) d ds where "device_id = Some (d # ds)"
        and "from_device_ids_to_entity_ids (d # ds) h = Inr (Some (e # es))"
    by blast
  then show ?thesis
  proof cases
    case entity
    then show ?thesis
      by (simp add: generate_by_entity)
  next
    case device
    then show ?thesis
      by (simp add: generate_by_device)
  qed
qed

lemma example_topic:
  "get_vacuum_mqtt_topic ''vacuum.tango'' (example_hass version) = Inr (Some ''tango'')"
  by (simp add: get_vacuum_mqtt_topic_def example_hass_def)

lemma example_device:
  "get_device_info_from_entity_id ''vacuum.tango'' (example_hass version)
     = Some \<lparr>sw_version = version\<rparr>"
  by (simp add: get_device_info_from_entity_id_def example_hass_def)

lemma example_resolution:
  "from_device_ids_to_entity_ids [''dev1''] (example_hass version)
     = Inr (Some [''vacuum.tango'', ''vacuum.tango_2''])"
  by (simp add: is_rand256_vacuum_def vacuum_entities_of_def example_hass_def)

lemma example_firmware:
  "is_rand256_vacuum (Some \<lparr>sw_version = Some ''Valetudo 2024.1''\<rparr>) = Inr False"
  "is_rand256_vacuum (Some \<lparr>sw_version = Some ''1.2.3-custom''\<rparr>) = Inr True"
  by (simp_all add: is_rand256_vacuum_def str_opt_def startswith_def lower_def lower_char_def
      ascii_upper_def byte_def char_of_eq_iff)

lemma example_trunc: "trunc (1009 / 10) = 100" "trunc (- (47 / 2)) = - 23"
  by (simp_all add: trunc_def) linarith+

text \<open>
  C4. When the target, given by entity or by device, resolves to a first entity whose base
  topic is \<open>B\<close> and whose device runs Hypfer, and \<open>int\<close> gives \<open>xi\<close> and \<open>yi\<close> for the
  coordinates, the command has topic \<open>B/GoToLocationCapability/go/set\<close>, payload
  \<open>{"coordinates": {"x": xi, "y": yi}}\<close> and firmware \<open>Valetudo\<close>, for every \<open>xi\<close> and
  \<open>yi\<close>: no bound is checked.
\<close>

theorem hypfer_go_to_command:
  assumes "(device_id = None \<or> device_id = Some []) \<and> entity_id = Some (e # es)
      \<or> (\<exists>d ds. device_id = Some (d # ds)
            \<and> from_device_ids_to_entity_ids (d # ds) h = Inr (Some (e # es)))"
    and "get_vacuum_mqtt_topic e h = Inr (Some B)"
    and "is_rand256_vacuum (get_device_info_from_entity_id e h) = Inr False"
    and "py_int x = Inr xi" and "py_int y = Inr yi"
  shows "generate_service_data_go_to entity_id device_id x y spot_id h =
     Inr (Some \<lparr>sd_entity_id = entity_id,
                sd_topic = B @ ''/GoToLocationCapability/go/set'',
                sd_payload = JObj [(''coordinates'', JObj [(''x'', JInt xi), (''y'', JInt yi)])],
                sd_firmware = ''Valetudo''\<rparr>)"
  using generate_resolved [OF assms(1)] service_data_for_hypfer [OF assms(2-5)]
  by simp

text \<open>
  Coordinates (100, 200) on base topic \<open>tango\<close>, and a float and an out-of-range
  coordinate addressed by device.
\<close>

theorem hypfer_go_to_command_witness:
  "generate_service_data_go_to (Some [''vacuum.tango'']) None (PyInt 100) (PyInt 200) None
       (example_hass (Some ''Valetudo 2024.1''))
     = Inr (Some \<lparr>sd_entity_id = Some [''vacuum.tango''],
                  sd_topic = ''tango/GoToLocationCapability/go/set'',
                  sd_payload =
                    JObj [(''coordinates'', JObj [(''x'', JInt 100), (''y'', JInt 200)])],
                  sd_firmware = ''Valetudo''\<rparr>)
   \<and> generate_service_data_go_to None (Some [''dev1'']) (PyFloat (1009 / 10))
       (PyInt (- 70000)) (Some ''kitchen'') (example_hass (Some ''Valetudo 2024.1''))
     = Inr (Some \<lparr>sd_entity_id = None,
                  sd_topic = ''tango/GoToLocationCapability/go/set'',
                  sd_payload =
                    JObj [(''coordinates'', JObj [(''x'', JInt 100), (''y'', JInt (- 70000))])],
                  sd_firmware = ''Valetudo''\<rparr>)"
  using
    hypfer_go_to_command [where entity_id = "Some [''vacuum.tango'']" and device_id = None
      and e = "''vacuum.tango''" and es = "[]" and h = "example_hass (Some ''Valetudo 2024.1'')"
      and B = "''tango''" and x = "PyInt 100" and xi = 100 and y = "PyInt 200" and yi = 200
      and spot_id = None]
    hypfer_go_to_command [where entity_id = None and device_id = "Some [''dev1'']"
      and e = "''vacuum.tango''" and es = "[''vacuum.tango_2'']"
      and h = "example_hass (Some ''Valetudo 2024.1'')"
      and B = "''tango''" and x = "PyFloat (1009 / 10)" and xi = 100 and y = "PyInt (- 70000)"
      and yi = "- 70000" and spot_id = "Some ''kitchen''"]
  by (simp add: example_topic example_device example_resolution example_firmware example_trunc
      del: from_device_ids_to_entity_ids.simps)

text \<open>
  C5. When the target resolves to a first entity whose base topic is \<open>B\<close> and whose device
  runs Rand256, the command has topic \<open>B/custom_command\<close>; with a (non-empty) spot
  identifier the payload is \<open>{"command": "go_to", "spot_id": s}\<close>, and without one, with
  coordinates that \<open>int\<close> turns into \<open>xi\<close> and \<open>yi\<close>, it is
  \<open>{"command": "go_to", "spot_coordinates": {"x": xi, "y": yi}}\<close>.
\<close>

theorem rand256_go_to_command:
  assumes "(device_id = None \<or> device_id = Some []) \<and> entity_id = Some (e # es)
      \<or> (\<exists>d ds. device_id = Some (d # ds)
            \<and> from_device_ids_to_entity_ids (d # ds) h = Inr (Some (e # es)))"
    and "get_vacuum_mqtt_topic e h = Inr (Some B)"
    and "is_rand256_vacuum (get_device_info_from_entity_id e h) = Inr True"
  shows "(spot_id = Some s \<and> s \<noteq> [] \<longrightarrow>
       generate_service_data_go_to entity_id device_id x y spot_id h =
         Inr (Some \<lparr>sd_entity_id = entity_id,
                    sd_topic = B @ ''/custom_command'',
                    sd_payload = JObj [(''command'', JStr ''go_to''), (''spot_id'', JStr s)],
                    sd_firmware = ''Rand256''\<rparr>))
     \<and> ((spot_id = None \<or> spot_id = Some []) \<and> py_int x = Inr xi \<and> py_int y = Inr yi \<longrightarrow>
       generate_service_data_go_to entity_id device_id x y spot_id h =
         Inr (Some \<lparr>sd_entity_id = entity_id,
                    sd_topic = B @ ''/custom_command'',
                    sd_payload = JObj [(''command'', JStr ''go_to''),
                       (''spot_coordinates'', JObj [(''x'', JInt xi), (''y'', JInt yi)])],
                    sd_firmware = ''Rand256''\<rparr>))"
proof (intro conjI impI)
  assume "spot_id = Some s \<and> s \<noteq> []"
  with generate_resolved [OF assms(1)] service_data_for_rand256_spot [OF assms(2,3)]
  show "generate_service_data_go_to entity_id device_id x y spot_id h =
         Inr (Some \<lparr>sd_entity_id = entity_id,
                    sd_topic = B @ ''/custom_command'',
                    sd_payload = JObj [(''command'', JStr ''go_to''), (''spot_id'', JStr s)],
                    sd_firmware = ''Rand256''\<rparr>)"
    by simp
next
  assume a: "(spot_id = None \<or> spot_id = Some []) \<and> py_int x = Inr xi \<and> py_int y = Inr yi"
  then have "service_data_for entity_id (Some [e]) x y spot_id h =
         Inr (Some \<lparr>sd_entity_id = entity_id,
                    sd_topic = B @ ''/custom_command'',
                    sd_payload = JObj [(''command'', JStr ''go_to''),
                       (''spot_coordinates'', JObj [(''x'', JInt xi), (''y'', JInt yi)])],
                    sd_firmware = ''Rand256''\<rparr>)"
    using service_data_for_rand256_xy [OF assms(2,3)] by blast
  with generate_resolved [OF assms(1)]
  show "generate_service_data_go_to entity_id device_id x y spot_id h =
         Inr (Some \<lparr>sd_entity_id = entity_id,
                    sd_topic = B @ ''/custom_command'',
                    sd_payload = JObj [(''command'', JStr ''go_to''),
                       (''spot_coordinates'', JObj [(''x'', JInt xi), (''y'', JInt yi)])],
                    sd_firmware = ''Rand256''\<rparr>)"
    by simp
qed

text \<open>
  The spot \<open>kitchen\<close> on base topic \<open>tango\<close>, and coordinates addressed by device.
\<close>

theorem rand256_go_to_command_witness:
  "generate_service_data_go_to (Some [''vacuum.tango'']) None PyNone PyNone (Some ''kitchen'')
       (example_hass (Some ''1.2.3-custom''))
     = Inr (Some \<lparr>sd_entity_id = Some [''vacuum.tango''],
                  sd_topic = ''tango/custom_command'',
                  sd_payload = JObj [(''command'', JStr ''go_to''), (''spot_id'', JStr ''kitchen'')],
                  sd_firmware = ''Rand256''\<rparr>)
   \<and> generate_service_data_go_to None (Some [''dev1'']) (PyInt 100) (PyFloat (- (47 / 2))) None
       (example_hass (Some ''1.2.3-custom''))
     = Inr (Some \<lparr>sd_entity_id = None,
                  sd_topic = ''tango/custom_command'',
                  sd_payload = JObj [(''command'', JStr ''go_to''),
                     (''spot_coordinates'', JObj [(''x'', JInt 100), (''y'', JInt (- 23))])],
                  sd_firmware = ''Rand256''\<rparr>)"
  using
    rand256_go_to_command [where entity_id = "Some [''vacuum.tango'']" and device_id = None
      and e = "''vacuum.tango''" and es = "[]" and h = "example_hass (Some ''1.2.3-custom'')"
      and B = "''tango''" and x = PyNone and xi = 0 and y = PyNone and yi = 0
      and spot_id = "Some ''kitchen''" and s = "''kitchen''"]
    rand256_go_to_command [where entity_id = None and device_id = "Some [''dev1'']"
      and e = "''vacuum.tango''" and es = "[''vacuum.tango_2'']"
      and h = "example_hass (Some ''1.2.3-custom'')"
      and B = "''tango''" and x = "PyInt 100" and xi = 100 and y = "PyFloat (- (47 / 2))"
      and yi = "- 23" and spot_id = None and s = "''kitchen''"]
  by (simp add: example_topic example_device example_resolution example_firmware example_trunc
      del: from_device_ids_to_entity_ids.simps)

end
